theory Spec2Isabelle
  imports Complex_Main
begin

section \<open>Floating-point values\<close>

text \<open>
  The source computes with numpy \<open>float64\<close> scalars. A value is modelled as an extended
  real: a finite real number, one of the two infinities, or NaN. The special values follow
  the IEEE 754 rules that numpy applies (division by zero yields an infinity or NaN and a
  warning, never an exception; NaN propagates through arithmetic and makes every comparison
  false). Arithmetic on finite values is exact: rounding, overflow, underflow and the sign
  of zero are not modelled. The theorems below are therefore limited to what does not depend
  on them: the control flow of the functions, the propagation of NaN and of the infinities,
  and the sign of a finite result at inputs of ordinary size.
\<close>

datatype fl = NaN | PInf | NInf | Fin real

fun fneg :: "fl \<Rightarrow> fl" where
  "fneg NaN = NaN"
| "fneg PInf = NInf"
| "fneg NInf = PInf"
| "fneg (Fin x) = Fin (- x)"

fun fadd :: "fl \<Rightarrow> fl \<Rightarrow> fl" where
  "fadd NaN y = NaN"
| "fadd x NaN = NaN"
| "fadd PInf NInf = NaN"
| "fadd NInf PInf = NaN"
| "fadd PInf y = PInf"
| "fadd x PInf = PInf"
| "fadd NInf y = NInf"
| "fadd x NInf = NInf"
| "fadd (Fin x) (Fin y) = Fin (x + y)"

definition fsub :: "fl \<Rightarrow> fl \<Rightarrow> fl" where
  "fsub x y = fadd x (fneg y)"

fun fmul :: "fl \<Rightarrow> fl \<Rightarrow> fl" where
  "fmul NaN y = NaN"
| "fmul x NaN = NaN"
| "fmul PInf PInf = PInf"
| "fmul PInf NInf = NInf"
| "fmul NInf PInf = NInf"
| "fmul NInf NInf = PInf"
| "fmul PInf (Fin y) = (if y = 0 then NaN else if 0 < y then PInf else NInf)"
| "fmul NInf (Fin y) = (if y = 0 then NaN else if 0 < y then NInf else PInf)"
| "fmul (Fin x) PInf = (if x = 0 then NaN else if 0 < x then PInf else NInf)"
| "fmul (Fin x) NInf = (if x = 0 then NaN else if 0 < x then NInf else PInf)"
| "fmul (Fin x) (Fin y) = Fin (x * y)"

fun fdiv :: "fl \<Rightarrow> fl \<Rightarrow> fl" where
  "fdiv NaN y = NaN"
| "fdiv x NaN = NaN"
| "fdiv PInf PInf = NaN"
| "fdiv PInf NInf = NaN"
| "fdiv NInf PInf = NaN"
| "fdiv NInf NInf = NaN"
| "fdiv PInf (Fin y) = (if 0 \<le> y then PInf else NInf)"
| "fdiv NInf (Fin y) = (if 0 \<le> y then NInf else PInf)"
| "fdiv (Fin x) PInf = Fin 0"
| "fdiv (Fin x) NInf = Fin 0"
| "fdiv (Fin x) (Fin y) =
     (if y = 0 then (if x = 0 then NaN else if 0 < x then PInf else NInf)
      else Fin (x / y))"

text \<open>\<open>x ** n\<close> for a literal integer exponent \<open>n\<close>.\<close>

fun fpowi :: "fl \<Rightarrow> nat \<Rightarrow> fl" where
  "fpowi NaN n = (if n = 0 then Fin 1 else NaN)"
| "fpowi PInf n = (if n = 0 then Fin 1 else PInf)"
| "fpowi NInf n = (if n = 0 then Fin 1 else if even n then PInf else NInf)"
| "fpowi (Fin x) n = Fin (x ^ n)"

text \<open>\<open>np.power(x, -0.5)\<close>.\<close>

fun power_neg_half :: "fl \<Rightarrow> fl" where
  "power_neg_half NaN = NaN"
| "power_neg_half PInf = Fin 0"
| "power_neg_half NInf = Fin 0"
| "power_neg_half (Fin x) =
     (if x < 0 then NaN else if x = 0 then PInf else Fin (x powr (- (1 / 2))))"

fun fsqrt :: "fl \<Rightarrow> fl" where
  "fsqrt NaN = NaN"
| "fsqrt PInf = PInf"
| "fsqrt NInf = NaN"
| "fsqrt (Fin x) = (if x < 0 then NaN else Fin (sqrt x))"

fun fabs :: "fl \<Rightarrow> fl" where
  "fabs NaN = NaN"
| "fabs PInf = PInf"
| "fabs NInf = PInf"
| "fabs (Fin x) = Fin \<bar>x\<bar>"

fun fsin :: "fl \<Rightarrow> fl" where
  "fsin (Fin x) = Fin (sin x)"
| "fsin x = NaN"

fun fcos :: "fl \<Rightarrow> fl" where
  "fcos (Fin x) = Fin (cos x)"
| "fcos x = NaN"

text \<open>Comparisons: false as soon as one side is NaN.\<close>

fun flt :: "fl \<Rightarrow> fl \<Rightarrow> bool" where
  "flt NaN y = False"
| "flt x NaN = False"
| "flt PInf y = False"
| "flt x NInf = False"
| "flt NInf y = True"
| "flt x PInf = True"
| "flt (Fin x) (Fin y) = (x < y)"

definition fgt :: "fl \<Rightarrow> fl \<Rightarrow> bool" where
  "fgt x y = flt y x"

fun isnan :: "fl \<Rightarrow> bool" where
  "isnan NaN = True"
| "isnan x = False"

text \<open>Python's \<open>x or d\<close> on numbers: \<open>d\<close> when \<open>x\<close> is zero, otherwise \<open>x\<close> (NaN and the
  infinities are truthy).\<close>

definition for_else :: "fl \<Rightarrow> fl \<Rightarrow> fl" where
  "for_else x d = (if x = Fin 0 then d else x)"

text \<open>\<open>math.atan2(y, x)\<close>.\<close>

fun atan2 :: "fl \<Rightarrow> fl \<Rightarrow> fl" where
  "atan2 NaN x = NaN"
| "atan2 y NaN = NaN"
| "atan2 PInf PInf = Fin (pi / 4)"
| "atan2 PInf NInf = Fin (3 * pi / 4)"
| "atan2 NInf PInf = Fin (- (pi / 4))"
| "atan2 NInf NInf = Fin (- (3 * pi / 4))"
| "atan2 PInf (Fin x) = Fin (pi / 2)"
| "atan2 NInf (Fin x) = Fin (- (pi / 2))"
| "atan2 (Fin y) PInf = Fin 0"
| "atan2 (Fin y) NInf = (if 0 \<le> y then Fin pi else Fin (- pi))"
| "atan2 (Fin y) (Fin x) =
     (if 0 < x then Fin (arctan (y / x))
      else if x < 0 then (if 0 \<le> y then Fin (arctan (y / x) + pi) else Fin (arctan (y / x) - pi))
      else if 0 < y then Fin (pi / 2)
      else if y < 0 then Fin (- (pi / 2))
      else Fin 0)"

text \<open>\<open>np.degrees\<close>.\<close>

definition degrees :: "fl \<Rightarrow> fl" where
  "degrees x = fmul x (Fin (180 / pi))"

text \<open>\<open>np.sign\<close>.\<close>

fun fsign :: "fl \<Rightarrow> fl" where
  "fsign NaN = NaN"
| "fsign PInf = Fin 1"
| "fsign NInf = Fin (- 1)"
| "fsign (Fin x) = Fin (sgn x)"

text \<open>A numpy array of three floats: an ECEF position \<open>(X, Y, Z)\<close> or a geodetic
  position \<open>(lat, lon, alt)\<close>.\<close>

type_synonym vec3 = "fl \<times> fl \<times> fl"

definition lat :: "vec3 \<Rightarrow> fl" where
  "lat v = fst v"

definition lon :: "vec3 \<Rightarrow> fl" where
  "lon v = fst (snd v)"

definition alt :: "vec3 \<Rightarrow> fl" where
  "alt v = snd (snd v)"


section \<open>ecef\_to\_lat\_lon\_alt\<close>

text \<open>The constants of \<open>ecef_to_lat_lon_alt\<close>.\<close>

definition lla_a :: fl where
  "lla_a = Fin 6378137"

definition lla_b :: fl where
  "lla_b = Fin 6356752.314245"

definition lla_e :: fl where
  "lla_e = Fin 0.08181919092890624"

definition lla_e1 :: fl where
  "lla_e1 = Fin 0.99664718932816898"

definition lla_c :: fl where
  "lla_c = Fin 42697.67279723605"

text \<open>
  The loop \<open>for i in range(10)\<close>: the first argument after \<open>p\<close> and \<open>Z\<close> counts the rounds
  that are left, the last one is the current \<open>T\<close>. A round assigns \<open>T = T_new\<close> before the
  test, so the test divides by the new value.
\<close>

fun lla_loop :: "fl \<Rightarrow> fl \<Rightarrow> nat \<Rightarrow> fl \<Rightarrow> fl" where
  "lla_loop p Z 0 T = T"
| "lla_loop p Z (Suc n) T =
     (let C = power_neg_half (fadd (Fin 1) (fpowi T 2));
          S = fmul C T;
          T_new = fdiv (fadd (fmul lla_e1 Z) (fmul lla_c (fpowi S 3)))
                       (fsub p (fmul lla_c (fpowi C 3)));
          delta = fsub T_new T
      in if flt (fdiv (fabs delta) T_new) (Fin (1 / 10 ^ 9)) then T_new
         else lla_loop p Z n T_new)"

definition lla_p :: "vec3 \<Rightarrow> fl" where
  "lla_p R = (case R of (X, Y, Z) \<Rightarrow> fsqrt (fadd (fpowi X 2) (fpowi Y 2)))"

definition lla_seed :: "vec3 \<Rightarrow> fl" where
  "lla_seed R = (case R of (X, Y, Z) \<Rightarrow> for_else (fdiv Z (fmul lla_e1 (lla_p R))) (Fin 1))"

definition lla_T :: "vec3 \<Rightarrow> fl" where
  "lla_T R = (case R of (X, Y, Z) \<Rightarrow> lla_loop (lla_p R) Z 10 (lla_seed R))"

definition ecef_to_lat_lon_alt :: "vec3 \<Rightarrow> bool \<Rightarrow> vec3" where
  "ecef_to_lat_lon_alt R deg =
     (case R of (X, Y, Z) \<Rightarrow>
        let p = lla_p R;
            T = lla_T R;
            theta = atan2 Y X;
            phi = atan2 T lla_e1;
            T1 = fadd (Fin 1) (fpowi T 2);
            h = (if fgt p Z
                 then fmul (fdiv (fsqrt (fsub T1 (fpowi lla_e 2))) lla_e1)
                           (fsub p (fdiv lla_a (fsqrt T1)))
                 else fmul (fsqrt (fsub T1 (fpowi lla_e 2)))
                           (fsub (fdiv Z T) (fdiv lla_b (fsqrt T1))))
        in if deg then (degrees phi, degrees theta, h) else (phi, theta, h))"

section \<open>ecef\_to\_spherical\<close>

text \<open>The constants of \<open>ecef_to_spherical\<close>.\<close>

definition sph_a :: fl where
  "sph_a = Fin 6366255.89"

definition sph_b :: fl where
  "sph_b = Fin 6366255.89"

definition sph_e :: fl where
  "sph_e = Fin 0"

definition sph_e1 :: fl where
  "sph_e1 = Fin 1"

definition sph_c :: fl where
  "sph_c = Fin 0"

fun sph_loop :: "fl \<Rightarrow> fl \<Rightarrow> nat \<Rightarrow> fl \<Rightarrow> fl" where
  "sph_loop p Z 0 T = T"
| "sph_loop p Z (Suc n) T =
     (let C = power_neg_half (fadd (Fin 1) (fpowi T 2));
          S = fmul C T;
          T_new = fdiv (fadd (fmul sph_e1 Z) (fmul sph_c (fpowi S 3)))
                       (fsub p (fmul sph_c (fpowi C 3)));
          delta = fsub T_new T
      in if flt (fdiv (fabs delta) T_new) (Fin (1 / 10 ^ 9)) then T_new
         else sph_loop p Z n T_new)"

definition ecef_to_spherical :: "vec3 \<Rightarrow> bool \<Rightarrow> vec3" where
  "ecef_to_spherical R deg =
     (case R of (X, Y, Z) \<Rightarrow>
        let p = fsqrt (fadd (fpowi X 2) (fpowi Y 2));
            T = sph_loop p Z 10 (for_else (fdiv Z (fmul sph_e1 p)) (Fin 1));
            theta = atan2 Y X;
            phi = atan2 T sph_e1;
            T1 = fadd (Fin 1) (fpowi T 2);
            h = (if fgt p Z
                 then fmul (fdiv (fsqrt (fsub T1 (fpowi sph_e 2))) sph_e1)
                           (fsub p (fdiv sph_a (fsqrt T1)))
                 else fmul (fsqrt (fsub T1 (fpowi sph_e 2)))
                           (fsub (fdiv Z T) (fdiv sph_b (fsqrt T1))))
        in if deg then (degrees phi, degrees theta, h) else (phi, theta, h))"


section \<open>The solver with its constants as parameters\<close>

text \<open>
  The algorithm of \<open>ecef_to_lat_lon_alt\<close> (seed, at most ten rounds, latitude, longitude,
  the two altitude formulas), written once with the five constants \<open>a\<close>, \<open>b\<close>, \<open>e\<close>,
  \<open>e1\<close>, \<open>c\<close> as arguments. It is the reference against which the two functions of the
  source are compared.
\<close>

definition bowring_update :: "fl \<Rightarrow> fl \<Rightarrow> fl \<Rightarrow> fl \<Rightarrow> fl \<Rightarrow> fl" where
  "bowring_update e1 c p Z T =
     (let C = power_neg_half (fadd (Fin 1) (fpowi T 2));
          S = fmul C T
      in fdiv (fadd (fmul e1 Z) (fmul c (fpowi S 3))) (fsub p (fmul c (fpowi C 3))))"

definition converged :: "fl \<Rightarrow> fl \<Rightarrow> bool" where
  "converged T T_new = flt (fdiv (fabs (fsub T_new T)) T_new) (Fin (1 / 10 ^ 9))"

fun bowring_loop :: "fl \<Rightarrow> fl \<Rightarrow> fl \<Rightarrow> fl \<Rightarrow> nat \<Rightarrow> fl \<Rightarrow> fl" where
  "bowring_loop e1 c p Z 0 T = T"
| "bowring_loop e1 c p Z (Suc n) T =
     (let T_new = bowring_update e1 c p Z T
      in if converged T T_new then T_new else bowring_loop e1 c p Z n T_new)"

definition bowring_solver :: "fl \<Rightarrow> fl \<Rightarrow> fl \<Rightarrow> fl \<Rightarrow> fl \<Rightarrow> vec3 \<Rightarrow> bool \<Rightarrow> vec3" where
  "bowring_solver a b e e1 c R deg =
     (case R of (X, Y, Z) \<Rightarrow>
        let p = fsqrt (fadd (fpowi X 2) (fpowi Y 2));
            T0 = for_else (fdiv Z (fmul e1 p)) (Fin 1);
            T = bowring_loop e1 c p Z 10 T0;
            theta = atan2 Y X;
            phi = atan2 T e1;
            T1 = fadd (Fin 1) (fpowi T 2);
            h = (if fgt p Z
                 then fmul (fdiv (fsqrt (fsub T1 (fpowi e 2))) e1) (fsub p (fdiv a (fsqrt T1)))
                 else fmul (fsqrt (fsub T1 (fpowi e 2))) (fsub (fdiv Z T) (fdiv b (fsqrt T1))))
        in if deg then (degrees phi, degrees theta, h) else (phi, theta, h))"


section \<open>ecef\_to\_lat\_lon\_alt1\<close>

text \<open>The constants of \<open>ecef_to_lat_lon_alt1\<close>; here \<open>e1\<close> is computed, not a literal.\<close>

definition alt1_a :: fl where
  "alt1_a = Fin 6378137"

definition alt1_b :: fl where
  "alt1_b = Fin 6356752.314245"

definition alt1_e :: fl where
  "alt1_e = Fin 0.08181919092890624"

definition alt1_E :: fl where
  "alt1_E = fpowi alt1_e 2"

definition alt1_e1 :: fl where
  "alt1_e1 = fsqrt (fsub (Fin 1) (fpowi alt1_e 2))"

definition max_iter :: nat where
  "max_iter = 5"

text \<open>
  How the loop \<open>for i in range(max_iter)\<close> is left: through \<open>return
  ecef_to_lat_lon_alt1(R)\<close> when \<open>delta\<close> is NaN, or through \<open>break\<close> with the current
  \<open>Sn\<close> and \<open>Cn\<close>.
\<close>

datatype loop_exit = Restart | Break fl fl

text \<open>
  The loop runs over the list of indices that are left. The round with index
  \<open>max_iter - 1\<close> always breaks, so the empty list is reached only after a round that
  assigned \<open>S, C = Sn, Cn\<close>.
\<close>

fun alt1_loop :: "fl \<Rightarrow> fl \<Rightarrow> nat list \<Rightarrow> fl \<Rightarrow> fl \<Rightarrow> loop_exit" where
  "alt1_loop P Z [] S C = Break S C"
| "alt1_loop P Z (i # is) S C =
     (let A = fsqrt (fadd (fpowi S 2) (fpowi C 2));
          Cn = fsub (fmul P (fpowi A 3)) (fmul alt1_E (fpowi C 3));
          Sn = fadd (fmul Z (fpowi A 3)) (fmul alt1_E (fpowi S 3));
          delta = fdiv (fmul (fabs (fsub (fdiv Sn Cn) (fdiv S C))) C) S
      in if isnan delta then Restart
         else if flt (fabs delta) (Fin (1 / 10 ^ 10)) \<or> i = max_iter - 1 then Break Sn Cn
         else alt1_loop P Z is Sn Cn)"

text \<open>The part of the body before the loop, and the loop: \<open>p\<close>, \<open>az\<close>, the scaled \<open>Z\<close> and
  \<open>P\<close>, the start values, the exit of the loop.\<close>

definition alt1_p :: "vec3 \<Rightarrow> fl" where
  "alt1_p R = (case R of (X, Y, Z) \<Rightarrow> fsqrt (fadd (fpowi X 2) (fpowi Y 2)))"

definition alt1_az :: "vec3 \<Rightarrow> fl" where
  "alt1_az R = (case R of (X, Y, Z) \<Rightarrow> fabs Z)"

definition alt1_iterate :: "vec3 \<Rightarrow> loop_exit" where
  "alt1_iterate R =
     (let p = alt1_p R;
          az = alt1_az R;
          Z = fdiv (fmul alt1_e1 az) alt1_a;
          P = fdiv p alt1_a;
          S = for_else Z (Fin 1);
          C = for_else (fmul alt1_e1 P) (Fin 1)
      in alt1_loop P Z [0..<max_iter] S C)"

text \<open>The part of the body after the loop.\<close>

definition alt1_finish :: "vec3 \<Rightarrow> bool \<Rightarrow> fl \<Rightarrow> fl \<Rightarrow> vec3" where
  "alt1_finish R deg Sn Cn =
     (case R of (X, Y, Z) \<Rightarrow>
        let theta = atan2 Y X;
            Cc = fmul alt1_e1 Cn;
            phi = fmul (fsign Z) (atan2 Sn Cc);
            h = fdiv (fsub (fadd (fmul (alt1_p R) Cc) (fmul (alt1_az R) Sn))
                           (fmul alt1_b (fsqrt (fadd (fpowi Sn 2) (fpowi Cn 2)))))
                     (fsqrt (fadd (fpowi Cc 2) (fpowi Sn 2)))
        in if deg then (degrees phi, degrees theta, h) else (phi, theta, h))"

text \<open>
  The function itself. The call in the NaN branch passes \<open>R\<close> alone, so \<open>deg\<close> takes its
  default \<open>True\<close>. The result is \<open>None\<close> when the recursion never returns.
\<close>

partial_function (option) ecef_to_lat_lon_alt1 :: "vec3 \<Rightarrow> bool \<Rightarrow> vec3 option" where
  "ecef_to_lat_lon_alt1 R deg =
     (case alt1_iterate R of
        Restart \<Rightarrow> ecef_to_lat_lon_alt1 R True
      | Break Sn Cn \<Rightarrow> Some (alt1_finish R deg Sn Cn))"



section \<open>sat\_in\_enu\<close>

definition norm3 :: "vec3 \<Rightarrow> fl" where
  "norm3 v = (case v of (x, y, z) \<Rightarrow>
     fsqrt (fadd (fadd (fpowi (fabs x) 2) (fpowi (fabs y) 2)) (fpowi (fabs z) 2)))"

definition sat_in_enu :: "vec3 \<Rightarrow> vec3 \<Rightarrow> vec3" where
  "sat_in_enu R_u R_sat =
     (case R_u of (Xu, Yu, Zu) \<Rightarrow> case R_sat of (Xs, Ys, Zs) \<Rightarrow>
        let R0 = fsub Xs Xu; R1 = fsub Ys Yu; R2 = fsub Zs Zu;
            phi_theta_h = ecef_to_lat_lon_alt R_u False;
            sin_p = fsin (lat phi_theta_h); sin_t = fsin (lon phi_theta_h);
            cos_p = fcos (lat phi_theta_h); cos_t = fcos (lon phi_theta_h);
            X_enu =
              (fadd (fadd (fmul (fneg sin_t) R0) (fmul cos_t R1)) (fmul (Fin 0) R2),
               fadd (fadd (fmul (fmul (fneg sin_p) cos_t) R0) (fmul (fmul (fneg sin_p) sin_t) R1))
                    (fmul cos_p R2),
               fadd (fadd (fmul (fmul cos_p cos_t) R0) (fmul (fmul cos_p sin_t) R1))
                    (fmul sin_p R2));
            n = norm3 X_enu
        in (fdiv (fst X_enu) n, fdiv (fst (snd X_enu)) n, fdiv (snd (snd X_enu)) n))"


section \<open>Special values in the arithmetic\<close>

lemma fadd_NaN_right [simp]: "fadd x NaN = NaN"
  by (cases x) simp_all

lemma fmul_NaN_right [simp]: "fmul x NaN = NaN"
  by (cases x) simp_all

lemma fdiv_NaN_right [simp]: "fdiv x NaN = NaN"
  by (cases x) simp_all

lemma fsub_NaN_left [simp]: "fsub NaN y = NaN"
  by (simp add: fsub_def)

lemma fsub_NaN_right [simp]: "fsub x NaN = NaN"
  by (simp add: fsub_def)

lemma flt_NaN_right [simp]: "flt x NaN = False"
  by (cases x) simp_all

lemma atan2_NaN_right [simp]: "atan2 y NaN = NaN"
  by (cases y) simp_all

lemma degrees_NaN [simp]: "degrees NaN = NaN"
  by (simp add: degrees_def)

lemma bowring_update_NaN [simp]: "bowring_update e1 c p Z NaN = NaN"
  by (simp add: bowring_update_def)

lemma not_converged_NaN [simp]: "\<not> converged T NaN"
  by (simp add: converged_def)

lemma bowring_loop_NaN [simp]: "bowring_loop e1 c p Z n NaN = NaN"
  by (induction n) simp_all


section \<open>The two copies of the solver against the parameterized one\<close>

lemma lla_loop_bowring: "lla_loop p Z n T = bowring_loop lla_e1 lla_c p Z n T"
  by (induction n arbitrary: T) (simp_all add: Let_def bowring_update_def converged_def)

lemma sph_loop_bowring: "sph_loop p Z n T = bowring_loop sph_e1 sph_c p Z n T"
  by (induction n arbitrary: T) (simp_all add: Let_def bowring_update_def converged_def)

text \<open>
  Claim C8. For every input \<open>R\<close> and every value of \<open>deg\<close>, \<open>ecef_to_spherical\<close> returns
  exactly what the algorithm of \<open>ecef_to_lat_lon_alt\<close> returns once its constants are
  replaced by \<open>a = b = 6366255.89\<close>, \<open>e = 0\<close>, \<open>e1 = 1\<close>, \<open>c = 0\<close>. The second half
  states that the parameterized solver is indeed the algorithm of \<open>ecef_to_lat_lon_alt\<close>:
  with the WGS84 constants it is that function.
\<close>

theorem ecef_to_spherical_is_degenerate_solver:
  "ecef_to_spherical R deg =
     bowring_solver (Fin 6366255.89) (Fin 6366255.89) (Fin 0) (Fin 1) (Fin 0) R deg
   \<and> ecef_to_lat_lon_alt R deg = bowring_solver lla_a lla_b lla_e lla_e1 lla_c R deg"
proof
  show "ecef_to_spherical R deg =
     bowring_solver (Fin 6366255.89) (Fin 6366255.89) (Fin 0) (Fin 1) (Fin 0) R deg"
    unfolding ecef_to_spherical_def bowring_solver_def sph_loop_bowring
      sph_a_def sph_b_def sph_e_def sph_e1_def sph_c_def
    by (simp add: Let_def)
  show "ecef_to_lat_lon_alt R deg = bowring_solver lla_a lla_b lla_e lla_e1 lla_c R deg"
    unfolding ecef_to_lat_lon_alt_def bowring_solver_def lla_T_def lla_seed_def lla_p_def
      lla_loop_bowring
    by (simp add: split_def Let_def)
qed


section \<open>The NaN branch of ecef\_to\_lat\_lon\_alt1\<close>

lemma upt_max_iter: "[0..<max_iter] = [0, 1, 2, 3, 4]"
  by (simp add: max_iter_def upt_rec)

lemma alt1_returns_no_restart:
  assumes "ecef_to_lat_lon_alt1 R deg = Some out"
  shows "alt1_iterate R \<noteq> Restart"
proof (rule ecef_to_lat_lon_alt1.raw_induct
    [where P = "\<lambda>R deg out. alt1_iterate R \<noteq> Restart", OF _ assms])
  fix f :: "vec3 \<Rightarrow> bool \<Rightarrow> vec3 option" and R' deg' out'
  assume IH: "\<And>R deg y. f R deg = Some y \<Longrightarrow> alt1_iterate R \<noteq> Restart"
    and body: "(case alt1_iterate R' of Restart \<Rightarrow> f R' True
                | Break Sn Cn \<Rightarrow> Some (alt1_finish R' deg' Sn Cn)) = Some out'"
  show "alt1_iterate R' \<noteq> Restart"
  proof
    assume r: "alt1_iterate R' = Restart"
    with body have "f R' True = Some out'" by simp
    from IH [OF this] r show False by simp
  qed
qed

text \<open>
  Claim C9. When \<open>ecef_to_lat_lon_alt1\<close> finds \<open>delta\<close> to be NaN it calls itself on the
  same \<open>R\<close>; nothing has changed, so the new invocation finds the same NaN. On every input
  on which a round of the loop produces a NaN \<open>delta\<close> the call therefore never returns.
\<close>

theorem alt1_nan_never_returns:
  "alt1_iterate R = Restart \<Longrightarrow> ecef_to_lat_lon_alt1 R deg = None"
  using alt1_returns_no_restart [of R deg] by (cases "ecef_to_lat_lon_alt1 R deg") auto

theorem alt1_nan_never_returns_witness:
  "alt1_iterate (PInf, Fin 0, Fin 0) = Restart
   \<and> ecef_to_lat_lon_alt1 (PInf, Fin 0, Fin 0) False = None"
proof -
  have h: "alt1_iterate (PInf, Fin 0, Fin 0) = Restart"
    by (simp add: alt1_iterate_def upt_max_iter alt1_p_def alt1_az_def alt1_e1_def alt1_e_def
        alt1_a_def for_else_def Let_def fsub_def alt1_E_def)
  show ?thesis using h alt1_nan_never_returns [OF h, of False] by simp
qed




section \<open>Infinite and NaN iterates of ecef\_to\_lat\_lon\_alt\<close>

lemma bowring_update_PInf [simp]: "bowring_update e1 c p Z PInf = NaN"
  by (simp add: bowring_update_def)

lemma bowring_update_NInf [simp]: "bowring_update e1 c p Z NInf = NaN"
  by (simp add: bowring_update_def)

lemma bowring_loop_PInf [simp]: "bowring_loop e1 c p Z (Suc n) PInf = NaN"
  by simp

lemma bowring_loop_NInf [simp]: "bowring_loop e1 c p Z (Suc n) NInf = NaN"
  by simp

lemma lla_T_NaN_seed: "lla_seed R = NaN \<or> lla_seed R = PInf \<or> lla_seed R = NInf \<Longrightarrow> lla_T R = NaN"
  by (cases R) (auto simp add: lla_T_def lla_loop_bowring numeral_eq_Suc simp del: bowring_loop.simps)

lemma lla_p_axis [simp]: "lla_p (Fin 0, Fin 0, Z) = Fin 0"
  by (simp add: lla_p_def)

lemma lat_of_lla: "lat (ecef_to_lat_lon_alt R deg) =
    (if deg then degrees (atan2 (lla_T R) lla_e1) else atan2 (lla_T R) lla_e1)"
  by (cases R) (simp add: ecef_to_lat_lon_alt_def lat_def Let_def)

lemma alt_of_lla: "alt (ecef_to_lat_lon_alt (X, Y, Z) deg) =
    (if fgt (lla_p (X, Y, Z)) Z
     then fmul (fdiv (fsqrt (fsub (fadd (Fin 1) (fpowi (lla_T (X, Y, Z)) 2)) (fpowi lla_e 2))) lla_e1)
               (fsub (lla_p (X, Y, Z)) (fdiv lla_a (fsqrt (fadd (Fin 1) (fpowi (lla_T (X, Y, Z)) 2)))))
     else fmul (fsqrt (fsub (fadd (Fin 1) (fpowi (lla_T (X, Y, Z)) 2)) (fpowi lla_e 2)))
               (fsub (fdiv Z (lla_T (X, Y, Z))) (fdiv lla_b (fsqrt (fadd (Fin 1) (fpowi (lla_T (X, Y, Z)) 2))))))"
  by (simp add: ecef_to_lat_lon_alt_def alt_def Let_def)

lemma lla_seed_axis: "z \<noteq> 0 \<Longrightarrow> lla_seed (Fin 0, Fin 0, Fin z) = (if 0 < z then PInf else NInf)"
  by (simp add: lla_seed_def lla_e1_def for_else_def)

lemma lla_seed_origin: "lla_seed (Fin 0, Fin 0, Fin 0) = NaN"
  by (simp add: lla_seed_def lla_e1_def for_else_def)

lemma isnan_iff: "isnan x \<longleftrightarrow> x = NaN"
  by (cases x) simp_all

text \<open>
  Against claim C2 (a zero cylindrical radius \<open>p\<close> makes the seed 1, and the polar-axis
  input \<open>X = Y = 0\<close>, \<open>Z = b\<close> gives latitude +90 or -90 degrees): on that input \<open>p\<close>
  is zero, the seed is plus infinity, and the latitude returned is NaN.
\<close>

theorem pole_returns_nan:
  "lla_p (Fin 0, Fin 0, lla_b) = Fin 0
   \<and> lla_seed (Fin 0, Fin 0, lla_b) = PInf
   \<and> lat (ecef_to_lat_lon_alt (Fin 0, Fin 0, lla_b) True) = NaN"
proof -
  have s: "lla_seed (Fin 0, Fin 0, lla_b) = PInf"
    by (simp add: lla_b_def lla_seed_axis)
  then have "lla_T (Fin 0, Fin 0, lla_b) = NaN"
    by (simp add: lla_T_NaN_seed)
  then show ?thesis using s by (simp add: lat_of_lla)
qed

text \<open>
  Claim C2, as the code has it: the rule for the seed. The seed is the quotient
  \<open>Z / (e1 * p)\<close>, replaced by 1 exactly when that quotient is zero, and not when \<open>p\<close> is
  zero. When \<open>p\<close> is zero and \<open>Z\<close> is finite and not zero, the division raises nothing and
  the seed is plus or minus infinity, with the sign of \<open>Z\<close>.
\<close>

theorem lla_seed_guards_zero_quotient:
  "lla_seed (X, Y, Z) =
     (if fdiv Z (fmul lla_e1 (lla_p (X, Y, Z))) = Fin 0 then Fin 1
      else fdiv Z (fmul lla_e1 (lla_p (X, Y, Z))))
   \<and> (lla_p (X, Y, Fin z) = Fin 0 \<and> z \<noteq> 0 \<longrightarrow>
        lla_seed (X, Y, Fin z) = (if 0 < z then PInf else NInf))"
proof (intro conjI impI)
  show "lla_seed (X, Y, Z) =
     (if fdiv Z (fmul lla_e1 (lla_p (X, Y, Z))) = Fin 0 then Fin 1
      else fdiv Z (fmul lla_e1 (lla_p (X, Y, Z))))"
    by (simp add: lla_seed_def for_else_def)
next
  assume "lla_p (X, Y, Fin z) = Fin 0 \<and> z \<noteq> 0"
  then show "lla_seed (X, Y, Fin z) = (if 0 < z then PInf else NInf)"
    by (simp add: lla_seed_def lla_e1_def for_else_def)
qed

theorem lla_seed_guards_zero_quotient_witness:
  "lla_p (Fin 0, Fin 0, Fin (- 1)) = Fin 0 \<and> (- 1 :: real) \<noteq> 0
   \<and> lla_seed (Fin 0, Fin 0, Fin (- 1)) = NInf
   \<and> lla_seed (Fin 1, Fin 0, Fin 0) = Fin 1"
proof -
  have h: "lla_p (Fin 0, Fin 0, Fin (- 1)) = Fin 0 \<and> (- 1 :: real) \<noteq> 0" by simp
  from lla_seed_guards_zero_quotient [of "Fin 0" "Fin 0" "Fin (- 1)" "- 1"] h
  have a: "lla_seed (Fin 0, Fin 0, Fin (- 1)) = (if 0 < (- 1 :: real) then PInf else NInf)"
    by blast
  have q: "fdiv (Fin 0) (fmul lla_e1 (lla_p (Fin 1, Fin 0, Fin 0))) = Fin 0"
    by (simp add: lla_p_def lla_e1_def)
  from lla_seed_guards_zero_quotient [of "Fin 1" "Fin 0" "Fin 0"]
  have "lla_seed (Fin 1, Fin 0, Fin 0) =
     (if fdiv (Fin 0) (fmul lla_e1 (lla_p (Fin 1, Fin 0, Fin 0))) = Fin 0 then Fin 1
      else fdiv (Fin 0) (fmul lla_e1 (lla_p (Fin 1, Fin 0, Fin 0))))"
    by blast
  then have b: "lla_seed (Fin 1, Fin 0, Fin 0) = Fin 1" by (simp add: q)
  from h a b show ?thesis by simp
qed

text \<open>
  Against claim C3 (no result ever contains NaN): the all-zero input returns NaN as latitude
  and as altitude.
\<close>

theorem origin_returns_nan:
  "ecef_to_lat_lon_alt (Fin 0, Fin 0, Fin 0) True = (NaN, Fin 0, NaN)"
proof -
  have "lla_T (Fin 0, Fin 0, Fin 0) = NaN"
    by (simp add: lla_T_NaN_seed lla_seed_origin)
  then show ?thesis
    by (simp add: ecef_to_lat_lon_alt_def Let_def fgt_def degrees_def lla_e_def)
qed

text \<open>
  Claim C3, as the code has it. \<open>ecef_to_lat_lon_alt\<close> has no NaN test, no fallback and no
  error path: for every input and both values of \<open>deg\<close> it returns, and whenever the last
  iterate \<open>T\<close> is NaN the latitude and the altitude of the result are NaN.
\<close>

theorem nan_iterate_is_returned:
  "isnan (lla_T R) \<Longrightarrow>
     isnan (lat (ecef_to_lat_lon_alt R deg)) \<and> isnan (alt (ecef_to_lat_lon_alt R deg))"
  by (cases R) (simp add: isnan_iff lat_of_lla alt_of_lla)

theorem nan_iterate_is_returned_witness:
  "isnan (lla_T (Fin 0, Fin 0, Fin 1))
   \<and> isnan (lat (ecef_to_lat_lon_alt (Fin 0, Fin 0, Fin 1) False))
   \<and> isnan (alt (ecef_to_lat_lon_alt (Fin 0, Fin 0, Fin 1) False))"
proof -
  have "lla_seed (Fin 0, Fin 0, Fin 1) = PInf" by (simp add: lla_seed_axis)
  then have h: "isnan (lla_T (Fin 0, Fin 0, Fin 1))" by (simp add: lla_T_NaN_seed)
  from h nan_iterate_is_returned [OF h, of False] show ?thesis by simp
qed


section \<open>Finite iterates\<close>

text \<open>
  On finite values the update of \<open>T\<close> is a quotient of reals. When \<open>c < p\<close> its denominator
  \<open>p - c * C ^ 3\<close> is positive, because \<open>0 < C \<le> 1\<close>, and the new \<open>T\<close> has the sign of
  \<open>Z\<close>.
\<close>

lemma powr_neg_half: "0 < x \<Longrightarrow> x powr - (1 / 2) = 1 / sqrt x"
  by (simp add: powr_minus powr_half_sqrt inverse_eq_divide)

lemma cube_neg: "(x::real) < 0 \<Longrightarrow> x ^ 3 < 0"
  by (simp add: power_less_zero_eq)

lemma inv_sqrt_bounds:
  fixes t :: real
  shows "0 < 1 / sqrt (1 + t\<^sup>2)" and "(1 / sqrt (1 + t\<^sup>2)) ^ 3 \<le> 1"
proof -
  have pos: "0 < 1 + t\<^sup>2" by (simp add: add_pos_nonneg)
  then show c0: "0 < 1 / sqrt (1 + t\<^sup>2)" by simp
  have "1 \<le> sqrt (1 + t\<^sup>2)" by simp
  then have "1 / sqrt (1 + t\<^sup>2) \<le> 1" using pos by (simp add: divide_le_eq_1)
  with c0 show "(1 / sqrt (1 + t\<^sup>2)) ^ 3 \<le> 1"
    by (simp add: power_le_one)
qed

lemma bowring_denominator_pos:
  fixes c p t :: real
  assumes "0 \<le> c" and "c < p"
  shows "0 < p - c * (1 / sqrt (1 + t\<^sup>2)) ^ 3"
proof -
  have "c * (1 / sqrt (1 + t\<^sup>2)) ^ 3 \<le> c * 1"
    using assms(1) inv_sqrt_bounds(2) [of t] by (intro mult_left_mono) auto
  with assms(2) show ?thesis by simp
qed

lemma bowring_update_Fin_gen:
  assumes "p - c * (1 / sqrt (1 + t\<^sup>2)) ^ 3 \<noteq> 0"
  shows "bowring_update (Fin e1) (Fin c) (Fin p) (Fin z) (Fin t) =
    Fin ((e1 * z + c * (1 / sqrt (1 + t\<^sup>2) * t) ^ 3) / (p - c * (1 / sqrt (1 + t\<^sup>2)) ^ 3))"
proof -
  have pos: "0 < 1 + t\<^sup>2" by (simp add: add_pos_nonneg)
  then show ?thesis
    using assms by (simp add: bowring_update_def powr_neg_half fsub_def Let_def)
qed

lemma bowring_update_Fin:
  assumes "0 \<le> c" and "c < p"
  shows "bowring_update (Fin e1) (Fin c) (Fin p) (Fin z) (Fin t) =
    Fin ((e1 * z + c * (1 / sqrt (1 + t\<^sup>2) * t) ^ 3) / (p - c * (1 / sqrt (1 + t\<^sup>2)) ^ 3))"
proof -
  have pos: "0 < 1 + t\<^sup>2" by (simp add: add_pos_nonneg)
  from bowring_denominator_pos [OF assms, of t]
  have "p - c * (1 / sqrt (1 + t\<^sup>2)) ^ 3 \<noteq> 0" by simp
  then show ?thesis
    using pos by (simp add: bowring_update_def powr_neg_half fsub_def Let_def)
qed

lemma bowring_numerator_sign:
  fixes e1 c z t :: real
  assumes "0 < e1" and "0 \<le> c" and "z \<noteq> 0" and "sgn t = sgn z"
  shows "sgn (e1 * z + c * (1 / sqrt (1 + t\<^sup>2) * t) ^ 3) = sgn z"
proof (cases "0 < z")
  case True
  with assms(4) have "0 < t" by (simp add: sgn_1_pos)
  with inv_sqrt_bounds(1) [of t] have "0 < 1 / sqrt (1 + t\<^sup>2) * t" by (intro mult_pos_pos)
  then have "0 \<le> c * (1 / sqrt (1 + t\<^sup>2) * t) ^ 3" using assms(2) by simp
  moreover have "0 < e1 * z" using True assms(1) by simp
  ultimately have "0 < e1 * z + c * (1 / sqrt (1 + t\<^sup>2) * t) ^ 3" by linarith
  with True show ?thesis by simp
next
  case False
  with assms(3) have z: "z < 0" by simp
  with assms(4) have "t < 0" by (simp add: sgn_1_neg)
  with inv_sqrt_bounds(1) [of t] have "1 / sqrt (1 + t\<^sup>2) * t < 0" by (intro mult_pos_neg)
  then have "(1 / sqrt (1 + t\<^sup>2) * t) ^ 3 < 0" by (rule cube_neg)
  then have "c * (1 / sqrt (1 + t\<^sup>2) * t) ^ 3 \<le> 0" using assms(2) by (simp add: mult_nonneg_nonpos)
  moreover have "e1 * z < 0" using z assms(1) by (simp add: mult_pos_neg)
  ultimately have "e1 * z + c * (1 / sqrt (1 + t\<^sup>2) * t) ^ 3 < 0" by linarith
  with z show ?thesis by simp
qed

lemma bowring_update_sign:
  assumes "0 < e1" and "0 \<le> c" and "c < p" and "z \<noteq> 0" and "sgn t = sgn z"
  shows "\<exists>t'. bowring_update (Fin e1) (Fin c) (Fin p) (Fin z) (Fin t) = Fin t' \<and> sgn t' = sgn z"
proof -
  let ?num = "e1 * z + c * (1 / sqrt (1 + t\<^sup>2) * t) ^ 3"
  let ?den = "p - c * (1 / sqrt (1 + t\<^sup>2)) ^ 3"
  have d: "0 < ?den" by (rule bowring_denominator_pos [OF assms(2,3)])
  have n: "sgn ?num = sgn z" by (rule bowring_numerator_sign [OF assms(1,2,4,5)])
  have "sgn (?num / ?den) = sgn ?num" using d by simp
  with n bowring_update_Fin [OF assms(2,3), of e1 z t] show ?thesis by simp
qed

lemma converged_negative: "t' < 0 \<Longrightarrow> converged (Fin t) (Fin t')"
proof -
  assume neg: "t' < 0"
  then have "\<bar>t' - t\<bar> / t' \<le> 0" by (simp add: divide_nonneg_neg)
  then have "\<bar>t' - t\<bar> / t' < 1 / 10 ^ 9" by (rule le_less_trans) simp
  with neg show ?thesis by (simp add: converged_def fsub_def)
qed

lemma lla_p_Fin: "lla_p (Fin x, Fin y, Z) = Fin (sqrt (x\<^sup>2 + y\<^sup>2))"
  using sum_power2_ge_zero [of x y] by (simp add: lla_p_def not_less)

lemma lla_seed_Fin:
  assumes "lla_p (X, Y, Fin z) = Fin p" and "z \<noteq> 0" and "0 < p"
  shows "lla_seed (X, Y, Fin z) = Fin (z / (0.99664718932816898 * p))"
  using assms by (simp add: lla_seed_def lla_e1_def for_else_def)

lemma atan2_pos_x_sign:
  assumes "0 < x"
  shows "\<exists>a. atan2 (Fin t) (Fin x) = Fin a \<and> sgn a = sgn t"
proof -
  have "sgn (arctan (t / x)) = sgn (t / x)"
    by (simp add: sgn_if arctan_less_zero_iff zero_less_arctan_iff)
  also have "\<dots> = sgn t" using assms by (simp add: sgn_divide)
  finally show ?thesis using assms by simp
qed

lemma earth_radius_far: "42698 \<le> sqrt ((6378137::real)\<^sup>2 + 0\<^sup>2)"
  by simp

lemma lla_first_round_south:
  assumes "z < 0" and "42698 \<le> sqrt (x\<^sup>2 + y\<^sup>2)"
  shows "converged (lla_seed (Fin x, Fin y, Fin z))
     (bowring_update lla_e1 lla_c (lla_p (Fin x, Fin y, Fin z)) (Fin z) (lla_seed (Fin x, Fin y, Fin z)))"
proof -
  define p where "p = sqrt (x\<^sup>2 + y\<^sup>2)"
  define t0 where "t0 = z / (0.99664718932816898 * p)"
  have p: "0 < p" unfolding p_def using assms(2) by linarith
  have z0: "z \<noteq> 0" using assms(1) by simp
  have pF: "lla_p (Fin x, Fin y, Fin z) = Fin p" unfolding p_def by (rule lla_p_Fin)
  have seed: "lla_seed (Fin x, Fin y, Fin z) = Fin t0"
    unfolding t0_def by (rule lla_seed_Fin [OF pF z0 p])
  have s0: "sgn t0 = sgn z" unfolding t0_def using p by (simp add: sgn_divide sgn_mult)
  have "(42697.67279723605::real) < 42698" by simp
  from this assms(2) have c: "(42697.67279723605::real) < p" unfolding p_def by (rule less_le_trans)
  from bowring_update_sign [of "0.99664718932816898" "42697.67279723605" p z t0, OF _ _ c z0 s0]
  obtain t' where t': "bowring_update lla_e1 lla_c (Fin p) (Fin z) (Fin t0) = Fin t'" "sgn t' = sgn z"
    by (auto simp: lla_e1_def lla_c_def)
  from t'(2) assms(1) have "t' < 0" by (simp add: sgn_1_neg)
  then have "converged (Fin t0) (Fin t')" by (rule converged_negative)
  then show ?thesis unfolding pF seed t'(1) .
qed


section \<open>The rounds of the loop\<close>

lemma bowring_update_funpow_NaN: "(bowring_update e1 c p Z ^^ k) NaN = NaN"
  by (induction k) simp_all

lemma bowring_loop_rounds:
  "0 < n \<Longrightarrow>
   \<exists>i<n. bowring_loop e1 c p Z n T = (bowring_update e1 c p Z ^^ Suc i) T
     \<and> (\<forall>j<i. \<not> converged ((bowring_update e1 c p Z ^^ j) T)
                             ((bowring_update e1 c p Z ^^ Suc j) T))
     \<and> (Suc i < n \<longrightarrow> converged ((bowring_update e1 c p Z ^^ i) T)
                                  ((bowring_update e1 c p Z ^^ Suc i) T))"
proof (induction n arbitrary: T)
  case 0
  then show ?case by simp
next
  case (Suc n)
  let ?u = "bowring_update e1 c p Z"
  show ?case
  proof (cases "converged T (?u T)")
    case True
    then have "bowring_loop e1 c p Z (Suc n) T = (?u ^^ Suc 0) T" by simp
    with True show ?thesis by (intro exI [of _ 0]) simp
  next
    case nc: False
    show ?thesis
    proof (cases n)
      case 0
      with nc have "bowring_loop e1 c p Z (Suc n) T = (?u ^^ Suc 0) T" by simp
      with 0 show ?thesis by (intro exI [of _ 0]) simp
    next
      case (Suc m)
      then have "0 < n" by simp
      from Suc.IH [OF this, of "?u T"] obtain i where i: "i < n"
        and res: "bowring_loop e1 c p Z n (?u T) = (?u ^^ Suc i) (?u T)"
        and before: "\<forall>j<i. \<not> converged ((?u ^^ j) (?u T)) ((?u ^^ Suc j) (?u T))"
        and last: "Suc i < n \<longrightarrow> converged ((?u ^^ i) (?u T)) ((?u ^^ Suc i) (?u T))"
        by blast
      have shift: "(?u ^^ k) (?u T) = (?u ^^ Suc k) T" for k
        by (simp add: funpow_swap1)
      have r: "bowring_loop e1 c p Z (Suc n) T = (?u ^^ Suc (Suc i)) T"
        using nc res by (simp add: funpow_swap1)
      have b: "\<not> converged ((?u ^^ j) T) ((?u ^^ Suc j) T)" if "j < Suc i" for j
      proof (cases j)
        case 0
        with nc show ?thesis by simp
      next
        case (Suc j')
        with that have "j' < i" by simp
        with before have "\<not> converged ((?u ^^ j') (?u T)) ((?u ^^ Suc j') (?u T))" by blast
        then show ?thesis unfolding shift Suc .
      qed
      have l: "converged ((?u ^^ Suc i) T) ((?u ^^ Suc (Suc i)) T)" if "Suc (Suc i) < Suc n"
      proof -
        from that last have "converged ((?u ^^ i) (?u T)) ((?u ^^ Suc i) (?u T))" by simp
        then show ?thesis unfolding shift .
      qed
      from i r b l show ?thesis by (intro exI [of _ "Suc i"]) blast
    qed
  qed
qed

text \<open>
  Claim C4. The loop of \<open>ecef_to_lat_lon_alt\<close> performs at most ten rounds; a round computes
  \<open>C = (1 + T\<^sup>2) ^ (-1/2)\<close>, \<open>S = C * T\<close> and
  \<open>T_new = (e1 * Z + c * S ^ 3) / (p - c * C ^ 3)\<close>, which is \<open>bowring_update\<close>. With \<open>i\<close>
  the index of the last round (so \<open>i + 1\<close> rounds are performed, \<open>i < 10\<close>): the final \<open>T\<close> is
  the iterate number \<open>i + 1\<close> of the seed; in no earlier round was the relative change
  \<open>|T_new - T| / T_new\<close> below \<open>1e-9\<close>; and if the loop stopped before the tenth round, the
  relative change of the last round is below \<open>1e-9\<close>. Whether or not the tolerance was met,
  the function returns, and its latitude is computed from that last iterate.
\<close>

theorem lla_loop_rounds:
  "(\<exists>i<10. lla_T (X, Y, Z) = (bowring_update lla_e1 lla_c (lla_p (X, Y, Z)) Z ^^ Suc i) (lla_seed (X, Y, Z))
     \<and> (\<forall>j<i. \<not> converged ((bowring_update lla_e1 lla_c (lla_p (X, Y, Z)) Z ^^ j) (lla_seed (X, Y, Z)))
                             ((bowring_update lla_e1 lla_c (lla_p (X, Y, Z)) Z ^^ Suc j) (lla_seed (X, Y, Z))))
     \<and> (Suc i < 10 \<longrightarrow> converged ((bowring_update lla_e1 lla_c (lla_p (X, Y, Z)) Z ^^ i) (lla_seed (X, Y, Z)))
                                  ((bowring_update lla_e1 lla_c (lla_p (X, Y, Z)) Z ^^ Suc i) (lla_seed (X, Y, Z)))))
   \<and> lat (ecef_to_lat_lon_alt (X, Y, Z) False) = atan2 (lla_T (X, Y, Z)) lla_e1"
proof
  have "(0::nat) < 10" by simp
  from bowring_loop_rounds [OF this, of lla_e1 lla_c "lla_p (X, Y, Z)" Z "lla_seed (X, Y, Z)"]
  show "\<exists>i<10. lla_T (X, Y, Z) = (bowring_update lla_e1 lla_c (lla_p (X, Y, Z)) Z ^^ Suc i) (lla_seed (X, Y, Z))
     \<and> (\<forall>j<i. \<not> converged ((bowring_update lla_e1 lla_c (lla_p (X, Y, Z)) Z ^^ j) (lla_seed (X, Y, Z)))
                             ((bowring_update lla_e1 lla_c (lla_p (X, Y, Z)) Z ^^ Suc j) (lla_seed (X, Y, Z))))
     \<and> (Suc i < 10 \<longrightarrow> converged ((bowring_update lla_e1 lla_c (lla_p (X, Y, Z)) Z ^^ i) (lla_seed (X, Y, Z)))
                                  ((bowring_update lla_e1 lla_c (lla_p (X, Y, Z)) Z ^^ Suc i) (lla_seed (X, Y, Z))))"
    by (simp only: lla_T_def lla_loop_bowring prod.case)
next
  show "lat (ecef_to_lat_lon_alt (X, Y, Z) False) = atan2 (lla_T (X, Y, Z)) lla_e1"
    by (simp add: lat_of_lla)
qed

theorem lla_loop_rounds_witness:
  "lla_T (Fin 0, Fin 0, Fin 0) =
     (bowring_update lla_e1 lla_c (lla_p (Fin 0, Fin 0, Fin 0)) (Fin 0) ^^ Suc 9)
       (lla_seed (Fin 0, Fin 0, Fin 0))
   \<and> \<not> converged
       ((bowring_update lla_e1 lla_c (lla_p (Fin 0, Fin 0, Fin 0)) (Fin 0) ^^ 3)
          (lla_seed (Fin 0, Fin 0, Fin 0)))
       ((bowring_update lla_e1 lla_c (lla_p (Fin 0, Fin 0, Fin 0)) (Fin 0) ^^ Suc 3)
          (lla_seed (Fin 0, Fin 0, Fin 0)))
   \<and> lla_T (Fin 6378137, Fin 0, Fin (- 1)) =
       bowring_update lla_e1 lla_c (lla_p (Fin 6378137, Fin 0, Fin (- 1))) (Fin (- 1))
         (lla_seed (Fin 6378137, Fin 0, Fin (- 1)))
   \<and> converged (lla_seed (Fin 6378137, Fin 0, Fin (- 1)))
       (bowring_update lla_e1 lla_c (lla_p (Fin 6378137, Fin 0, Fin (- 1))) (Fin (- 1))
         (lla_seed (Fin 6378137, Fin 0, Fin (- 1))))"
proof -
  let ?u0 = "bowring_update lla_e1 lla_c (lla_p (Fin 0, Fin 0, Fin 0)) (Fin 0)"
  let ?s0 = "lla_seed (Fin 0, Fin 0, Fin 0)"
  let ?u1 = "bowring_update lla_e1 lla_c (lla_p (Fin 6378137, Fin 0, Fin (- 1))) (Fin (- 1))"
  let ?s1 = "lla_seed (Fin 6378137, Fin 0, Fin (- 1))"
  from lla_loop_rounds [of "Fin 0" "Fin 0" "Fin 0"] obtain i
    where i: "i < 10" and T0: "lla_T (Fin 0, Fin 0, Fin 0) = (?u0 ^^ Suc i) ?s0"
      and nb0: "\<forall>j<i. \<not> converged ((?u0 ^^ j) ?s0) ((?u0 ^^ Suc j) ?s0)"
      and l0: "Suc i < 10 \<longrightarrow> converged ((?u0 ^^ i) ?s0) ((?u0 ^^ Suc i) ?s0)"
    by blast
  have nan: "(?u0 ^^ k) ?s0 = NaN" for k
    unfolding lla_seed_origin by (rule bowring_update_funpow_NaN)
  have "\<not> converged ((?u0 ^^ i) ?s0) ((?u0 ^^ Suc i) ?s0)"
    unfolding nan by (rule not_converged_NaN)
  with l0 have "\<not> Suc i < 10" by blast
  with i have i9: "i = 9" by simp
  have a: "lla_T (Fin 0, Fin 0, Fin 0) = (?u0 ^^ Suc 9) ?s0" using T0 unfolding i9 .
  have "(3::nat) < i" unfolding i9 by simp
  with nb0 have b: "\<not> converged ((?u0 ^^ 3) ?s0) ((?u0 ^^ Suc 3) ?s0)" by blast
  from lla_loop_rounds [of "Fin 6378137" "Fin 0" "Fin (- 1)"] obtain k
    where T1: "lla_T (Fin 6378137, Fin 0, Fin (- 1)) = (?u1 ^^ Suc k) ?s1"
      and nb1: "\<forall>j<k. \<not> converged ((?u1 ^^ j) ?s1) ((?u1 ^^ Suc j) ?s1)"
    by blast
  have c1: "converged ?s1 (?u1 ?s1)"
    by (rule lla_first_round_south [OF _ earth_radius_far]) simp
  have "k = 0"
  proof (rule ccontr)
    assume "k \<noteq> 0"
    then have "0 < k" by simp
    with nb1 have "\<not> converged ((?u1 ^^ 0) ?s1) ((?u1 ^^ Suc 0) ?s1)" by blast
    with c1 show False by simp
  qed
  with T1 have c: "lla_T (Fin 6378137, Fin 0, Fin (- 1)) = ?u1 ?s1" by simp
  from a b c c1 show ?thesis by blast
qed


section \<open>The altitude\<close>

text \<open>
  Claim C5. The altitude returned by \<open>ecef_to_lat_lon_alt\<close> is given by exactly one of two
  formulas, chosen by the test \<open>p > Z\<close>: if it holds,
  \<open>h = sqrt (1 + T\<^sup>2 - e\<^sup>2) / e1 * (p - a / sqrt (1 + T\<^sup>2))\<close>, otherwise
  \<open>h = sqrt (1 + T\<^sup>2 - e\<^sup>2) * (Z / T - b / sqrt (1 + T\<^sup>2))\<close>, where \<open>T\<close> is the last
  iterate of the loop.
\<close>

theorem altitude_branch:
  "(fgt (lla_p (X, Y, Z)) Z \<longrightarrow>
      alt (ecef_to_lat_lon_alt (X, Y, Z) deg) =
        fmul (fdiv (fsqrt (fsub (fadd (Fin 1) (fpowi (lla_T (X, Y, Z)) 2)) (fpowi lla_e 2))) lla_e1)
             (fsub (lla_p (X, Y, Z))
                   (fdiv lla_a (fsqrt (fadd (Fin 1) (fpowi (lla_T (X, Y, Z)) 2))))))
   \<and> (\<not> fgt (lla_p (X, Y, Z)) Z \<longrightarrow>
      alt (ecef_to_lat_lon_alt (X, Y, Z) deg) =
        fmul (fsqrt (fsub (fadd (Fin 1) (fpowi (lla_T (X, Y, Z)) 2)) (fpowi lla_e 2)))
             (fsub (fdiv Z (lla_T (X, Y, Z)))
                   (fdiv lla_b (fsqrt (fadd (Fin 1) (fpowi (lla_T (X, Y, Z)) 2))))))"
  by (simp add: alt_of_lla)

theorem altitude_branch_witness:
  "fgt (lla_p (Fin 1, Fin 0, Fin 0)) (Fin 0)
   \<and> alt (ecef_to_lat_lon_alt (Fin 1, Fin 0, Fin 0) True) =
        fmul (fdiv (fsqrt (fsub (fadd (Fin 1) (fpowi (lla_T (Fin 1, Fin 0, Fin 0)) 2))
                                (fpowi lla_e 2))) lla_e1)
             (fsub (lla_p (Fin 1, Fin 0, Fin 0))
                   (fdiv lla_a (fsqrt (fadd (Fin 1) (fpowi (lla_T (Fin 1, Fin 0, Fin 0)) 2)))))
   \<and> \<not> fgt (lla_p (Fin 0, Fin 0, Fin 1)) (Fin 1)
   \<and> alt (ecef_to_lat_lon_alt (Fin 0, Fin 0, Fin 1) True) =
        fmul (fsqrt (fsub (fadd (Fin 1) (fpowi (lla_T (Fin 0, Fin 0, Fin 1)) 2)) (fpowi lla_e 2)))
             (fsub (fdiv (Fin 1) (lla_T (Fin 0, Fin 0, Fin 1)))
                   (fdiv lla_b (fsqrt (fadd (Fin 1) (fpowi (lla_T (Fin 0, Fin 0, Fin 1)) 2)))))"
proof -
  have h1: "fgt (lla_p (Fin 1, Fin 0, Fin 0)) (Fin 0)"
    by (simp add: lla_p_Fin fgt_def)
  have h2: "\<not> fgt (lla_p (Fin 0, Fin 0, Fin 1)) (Fin 1)"
    by (simp add: fgt_def)
  from h1 h2 altitude_branch [of "Fin 1" "Fin 0" "Fin 0" True]
    altitude_branch [of "Fin 0" "Fin 0" "Fin 1" True]
  show ?thesis by blast
qed


section \<open>The sign of the latitude\<close>

lemma centre_denominator:
  fixes C :: real
  assumes "1 / 2 \<le> C"
  shows "1 - 42697.67279723605 * C ^ 3 < 0"
proof -
  have "(1 / 2) ^ 3 \<le> C ^ 3" using assms by (intro power_mono) simp_all
  then have "1 / 8 \<le> C ^ 3" by (simp add: power3_eq_cube)
  then show ?thesis by simp
qed

lemma lla_T_centre:
  "\<exists>t<0. lla_T (Fin 1, Fin 0, Fin 1) = Fin t"
proof -
  let ?e1 = "0.99664718932816898 :: real"
  let ?c = "42697.67279723605 :: real"
  define t0 where "t0 = 1 / ?e1"
  define C where "C = 1 / sqrt (1 + t0\<^sup>2)"
  have p1: "lla_p (Fin 1, Fin 0, Fin 1) = Fin 1"
    using lla_p_Fin [of 1 0 "Fin 1"] by simp
  have seed: "lla_seed (Fin 1, Fin 0, Fin 1) = Fin t0"
    using lla_seed_Fin [OF p1] by (simp add: t0_def)
  have t0pos: "0 < t0" by (simp add: t0_def)
  have "1 + t0\<^sup>2 \<le> 2\<^sup>2" by (simp add: t0_def power2_eq_square)
  then have "sqrt (1 + t0\<^sup>2) \<le> 2" by (intro real_le_lsqrt) simp_all
  moreover have "0 < sqrt (1 + t0\<^sup>2)" by (simp add: add_pos_nonneg)
  ultimately have "1 / 2 \<le> C" unfolding C_def by (simp add: field_simps)
  then have den: "1 - ?c * C ^ 3 < 0" by (rule centre_denominator)
  have Cpos: "0 < C" unfolding C_def using inv_sqrt_bounds(1) [of t0] .
  have "0 < C * t0" using Cpos t0pos by (rule mult_pos_pos)
  then have "0 < ?c * (C * t0) ^ 3" by simp
  then have num: "0 < ?e1 * 1 + ?c * (C * t0) ^ 3" by (intro add_pos_pos) simp_all
  define t1 where "t1 = (?e1 * 1 + ?c * (C * t0) ^ 3) / (1 - ?c * C ^ 3)"
  have t1: "t1 < 0" unfolding t1_def using num den by (rule divide_pos_neg)
  have "1 - ?c * (1 / sqrt (1 + t0\<^sup>2)) ^ 3 \<noteq> 0" using den by (simp add: C_def)
  from bowring_update_Fin_gen [OF this, of ?e1 1]
  have upd: "bowring_update (Fin ?e1) (Fin ?c) (Fin 1) (Fin 1) (Fin t0) = Fin t1"
    by (simp only: t1_def C_def)
  have "bowring_loop (Fin ?e1) (Fin ?c) (Fin 1) (Fin 1) (Suc 9) (Fin t0) = Fin t1"
    unfolding bowring_loop.simps upd Let_def using converged_negative [OF t1] by simp
  then have "lla_T (Fin 1, Fin 0, Fin 1) = Fin t1"
    by (simp add: lla_T_def lla_loop_bowring seed p1 lla_e1_def lla_c_def del: bowring_loop.simps)
  with t1 show ?thesis by blast
qed

text \<open>
  Claim C7 (for every input with \<open>Z\<close> not zero the latitude has the sign of \<open>Z\<close>), on the
  input \<open>(1, 0, 1)\<close>: the denominator \<open>p - c * C ^ 3\<close> of the first round is negative, the
  new \<open>T\<close> is negative, the test \<open>|T_new - T| / T_new < 1e-9\<close> holds at once because its
  left side is negative, and \<open>ecef_to_lat_lon_alt\<close> returns a negative latitude although
  \<open>Z\<close> is positive. Nothing in this function restores the sign, whereas
  \<open>ecef_to_lat_lon_alt1\<close> iterates on \<open>|Z|\<close> and multiplies by \<open>np.sign\<close> of \<open>Z\<close>.
\<close>

theorem latitude_sign_flips_near_centre:
  "flt (lat (ecef_to_lat_lon_alt (Fin 1, Fin 0, Fin 1) False)) (Fin 0)"
proof -
  from lla_T_centre obtain t where t: "t < 0" "lla_T (Fin 1, Fin 0, Fin 1) = Fin t" by blast
  from atan2_pos_x_sign [of "0.99664718932816898" t] obtain a
    where a: "atan2 (Fin t) lla_e1 = Fin a" "sgn a = sgn t" by (auto simp: lla_e1_def)
  from a(2) t(1) have "a < 0" by (simp add: sgn_1_neg)
  with a(1) t(2) show ?thesis by (simp add: lat_of_lla)
qed

section \<open>The ENU vector\<close>

text \<open>
  Claim C6 (the vector returned by \<open>sat_in_enu\<close> has norm 1 whenever observer and target
  do not coincide), on an observer at the pole, \<open>(0, 0, b)\<close>, and a target straight above
  it: the latitude that \<open>ecef_to_lat_lon_alt\<close> returns for the observer is NaN, and so are
  the three components of the vector and its norm.
\<close>

theorem enu_of_polar_observer_is_nan:
  "sat_in_enu (Fin 0, Fin 0, lla_b) (Fin 0, Fin 0, Fin 20000000) = (NaN, NaN, NaN)
   \<and> norm3 (sat_in_enu (Fin 0, Fin 0, lla_b) (Fin 0, Fin 0, Fin 20000000)) = NaN"
proof -
  have s: "lla_seed (Fin 0, Fin 0, lla_b) = PInf"
    by (simp add: lla_b_def lla_seed_axis)
  then have "lla_T (Fin 0, Fin 0, lla_b) = NaN"
    by (simp add: lla_T_NaN_seed)
  then have l: "lat (ecef_to_lat_lon_alt (Fin 0, Fin 0, lla_b) False) = NaN"
    by (simp add: lat_of_lla)
  have "sat_in_enu (Fin 0, Fin 0, lla_b) (Fin 0, Fin 0, Fin 20000000) = (NaN, NaN, NaN)"
    by (simp add: sat_in_enu_def Let_def l lla_b_def [symmetric] norm3_def)
  then show ?thesis by (simp add: norm3_def)
qed

end
